theory Spec2Isabelle
  imports Complex_Main "HOL-Library.Sublist"
begin

section \<open>Strings as Python sees them\<close>

text \<open>
  A Python \<open>str\<close> is a sequence of code points. The model is \<open>string\<close>, a list of
  \<open>char\<close>, read as the code points 0 to 255 (Latin-1): every character class
  below is the class Python's \<open>re\<close> and \<open>str\<close> use on that range. Code points
  above 255 are outside the model. Python's floats are modelled as exact reals.
\<close>

definition is_space :: "char \<Rightarrow> bool" where
  \<comment> \<open>\<open>\s\<close> of a \<open>str\<close> pattern, and what \<open>str.strip()\<close> and \<open>str.split()\<close> remove.\<close>
  "is_space c =
     (let n = (of_char c :: nat)
      in (9 \<le> n \<and> n \<le> 13) \<or> (28 \<le> n \<and> n \<le> 32) \<or> n = 133 \<or> n = 160)"

definition is_digit :: "char \<Rightarrow> bool" where
  \<comment> \<open>\<open>\d\<close>\<close>
  "is_digit c = (let n = (of_char c :: nat) in 48 \<le> n \<and> n \<le> 57)"

definition is_word :: "char \<Rightarrow> bool" where
  \<comment> \<open>\<open>\w\<close>: the alphanumeric code points and the underscore.\<close>
  "is_word c =
     (let n = (of_char c :: nat)
      in (48 \<le> n \<and> n \<le> 57) \<or> (65 \<le> n \<and> n \<le> 90) \<or> n = 95 \<or> (97 \<le> n \<and> n \<le> 122)
         \<or> n = 170 \<or> n = 178 \<or> n = 179 \<or> n = 181 \<or> n = 185 \<or> n = 186
         \<or> (188 \<le> n \<and> n \<le> 190) \<or> (192 \<le> n \<and> n \<le> 214) \<or> (216 \<le> n \<and> n \<le> 246)
         \<or> 248 \<le> n)"

definition lower_char :: "char \<Rightarrow> char" where
  "lower_char c =
     (let n = (of_char c :: nat)
      in if (65 \<le> n \<and> n \<le> 90) \<or> (192 \<le> n \<and> n \<le> 222 \<and> n \<noteq> 215)
         then char_of (n + 32) else c)"

definition lower :: "string \<Rightarrow> string" where
  \<comment> \<open>\<open>str.lower()\<close>\<close>
  "lower s = map lower_char s"

definition strip :: "string \<Rightarrow> string" where
  \<comment> \<open>\<open>str.strip()\<close>\<close>
  "strip s = rev (dropWhile is_space (rev (dropWhile is_space s)))"

fun split_from :: "string \<Rightarrow> string \<Rightarrow> string list" where
  \<comment> \<open>The scan of \<open>str.split()\<close>; \<open>w\<close> is the word read so far.\<close>
  "split_from w [] = (if w = [] then [] else [w])"
| "split_from w (c # cs) =
     (if is_space c then (if w = [] then split_from [] cs else w # split_from [] cs)
      else split_from (w @ [c]) cs)"

definition split_ws :: "string \<Rightarrow> string list" where
  \<comment> \<open>\<open>str.split()\<close>: the maximal runs of non-whitespace, in order.\<close>
  "split_ws s = split_from [] s"

definition contains :: "string \<Rightarrow> string \<Rightarrow> bool" where
  \<comment> \<open>\<open>contains needle hay\<close> is Python's \<open>needle in hay\<close>.\<close>
  "contains needle hay = (\<exists>t \<in> set (suffixes hay). prefix needle t)"

definition startswith :: "string \<Rightarrow> string \<Rightarrow> bool" where
  \<comment> \<open>\<open>startswith s p\<close> is \<open>s.startswith(p)\<close>.\<close>
  "startswith s p = prefix p s"

fun replace_from :: "string \<Rightarrow> string \<Rightarrow> nat \<Rightarrow> string \<Rightarrow> string" where
  \<comment> \<open>The scan of \<open>str.replace\<close>: \<open>k\<close> characters of a found occurrence are still
      to be skipped.\<close>
  "replace_from old new k [] = []"
| "replace_from old new (Suc k) (c # cs) = replace_from old new k cs"
| "replace_from old new 0 (c # cs) =
     (if prefix old (c # cs) then new @ replace_from old new (length old - 1) cs
      else c # replace_from old new 0 cs)"

definition replace :: "string \<Rightarrow> string \<Rightarrow> string \<Rightarrow> string" where
  \<comment> \<open>\<open>replace s old new\<close> is \<open>s.replace(old, new)\<close> for a non-empty \<open>old\<close>: the
      occurrences are taken left to right and do not overlap.\<close>
  "replace s old new = replace_from old new 0 s"

section \<open>Regular-expression substitution\<close>

text \<open>
  \<open>re.sub(pattern, repl, s)\<close> scans \<open>s\<close> from the left; where the pattern matches
  at the current position the match is replaced and the scan goes on behind it,
  otherwise the character is kept. A pattern is given by its matcher: the length
  of the match that starts at the head of the remaining text, if there is one.
  None of the patterns below looks behind the current position.
\<close>

fun sub_from :: "(string \<Rightarrow> nat option) \<Rightarrow> string \<Rightarrow> nat \<Rightarrow> string \<Rightarrow> string" where
  \<comment> \<open>\<open>k\<close> characters of the last match are still to be skipped.\<close>
  "sub_from m rep k [] = (case m [] of None \<Rightarrow> [] | Some _ \<Rightarrow> rep)"
| "sub_from m rep (Suc k) (c # cs) = sub_from m rep k cs"
| "sub_from m rep 0 (c # cs) =
     (case m (c # cs) of
        None \<Rightarrow> c # sub_from m rep 0 cs
      | Some 0 \<Rightarrow> rep @ c # sub_from m rep 0 cs
      | Some (Suc n) \<Rightarrow> rep @ sub_from m rep n cs)"

definition re_sub :: "(string \<Rightarrow> nat option) \<Rightarrow> string \<Rightarrow> string \<Rightarrow> string" where
  "re_sub m rep s = sub_from m rep 0 s"

definition paren_match :: "string \<Rightarrow> string \<Rightarrow> nat option" where
  \<comment> \<open>\<open>\s*\<close>, the literal \<open>opener\<close> (which starts with an opening parenthesis),
      \<open>[^)]+\<close>, then a closing parenthesis. Each greedy part has one way to
      match: the next character after it is not in its class.\<close>
  "paren_match opener s =
     (let ws = takeWhile is_space s; r = dropWhile is_space s
      in if prefix opener r
         then (let r2 = drop (length opener) r;
                   body = takeWhile (\<lambda>c. c \<noteq> CHR '')'') r2;
                   rest = dropWhile (\<lambda>c. c \<noteq> CHR '')'') r2
               in if body \<noteq> [] \<and> rest \<noteq> []
                  then Some (length ws + length opener + length body + 1)
                  else None)
         else None)"

definition with_paren :: "string \<Rightarrow> nat option" where
  \<comment> \<open>\<open>\s*\(with [^)]+\)\<close>\<close>
  "with_paren = paren_match ''(with ''"

definition any_paren :: "string \<Rightarrow> nat option" where
  \<comment> \<open>\<open>\s*\([^)]+\)\<close>\<close>
  "any_paren = paren_match ''(''"

definition space_run :: "string \<Rightarrow> nat option" where
  \<comment> \<open>\<open>\s+\<close>\<close>
  "space_run s = (case takeWhile is_space s of [] \<Rightarrow> None | w # ws \<Rightarrow> Some (Suc (length ws)))"

definition punct :: "string \<Rightarrow> nat option" where
  \<comment> \<open>\<open>[^\w\s]\<close>\<close>
  "punct s = (case s of [] \<Rightarrow> None | c # _ \<Rightarrow> if is_word c \<or> is_space c then None else Some 1)"

section \<open>normalize_track\<close>

definition normalize_track :: "string \<Rightarrow> string" where
  "normalize_track track =
     (let norm = lower track;
          norm = (if startswith norm ''the '' then drop 4 norm @ '', the'' else norm);
          norm = replace (replace norm '' is a '' '' is '') '' is the '' '' is '';
          norm = replace (replace (replace (replace norm ''(stripped)'' '''') ''(edit)'' '''')
                            ''stripped'' '''') ''edit'' '''';
          norm = re_sub with_paren '''' norm;
          norm = re_sub any_paren '''' norm;
          norm = re_sub punct '''' norm;
          norm = strip (re_sub space_run '' '' norm)
      in norm)"

section \<open>The similarity ratio of difflib\<close>

text \<open>
  \<open>SequenceMatcher(None, a, b).ratio()\<close> is \<open>2 * M / T\<close>: \<open>T\<close> the two lengths
  together, \<open>M\<close> the total size of the matching blocks. The blocks are found by
  taking the longest matching block of the two texts (the longest, then the
  earliest in \<open>a\<close>, then the earliest in \<open>b\<close>) and going on to its left and to
  its right. With no junk function, the only characters the search skips are the
  popular ones of a \<open>b\<close> of 200 characters or more; a found block is then
  extended over equal characters on both sides.
\<close>

definition popular :: "string \<Rightarrow> char \<Rightarrow> bool" where
  "popular b c = (200 \<le> length b \<and> length b div 100 + 1 < count_list b c)"

fun common_run :: "(char \<Rightarrow> bool) \<Rightarrow> string \<Rightarrow> string \<Rightarrow> nat" where
  \<comment> \<open>How far the two texts agree from their heads on characters that are not skipped.\<close>
  "common_run skip (x # xs) (y # ys) =
     (if x = y \<and> \<not> skip y then Suc (common_run skip xs ys) else 0)"
| "common_run skip _ _ = 0"

definition better :: "(char \<Rightarrow> bool) \<Rightarrow> string \<Rightarrow> string \<Rightarrow> nat \<times> nat \<times> nat \<Rightarrow> nat \<times> nat
                       \<Rightarrow> nat \<times> nat \<times> nat" where
  \<comment> \<open>A later block replaces the best one only when it is strictly longer.\<close>
  "better skip a b best p =
     (case p of (i, j) \<Rightarrow>
        (let k = common_run skip (drop i a) (drop j b)
         in if snd (snd best) < k then (i, j, k) else best))"

definition find_longest_match :: "(char \<Rightarrow> bool) \<Rightarrow> string \<Rightarrow> string \<Rightarrow> nat \<times> nat \<times> nat" where
  "find_longest_match skip a b =
     (case foldl (better skip a b) (0, 0, 0) (List.product [0..<length a] [0..<length b]) of
        (i, j, k) \<Rightarrow>
          (let bwd = common_run (\<lambda>_. False) (rev (take i a)) (rev (take j b));
               fwd = common_run (\<lambda>_. False) (drop (i + k) a) (drop (j + k) b)
           in (i - bwd, j - bwd, bwd + k + fwd)))"

lemma common_run_le: "common_run skip xs ys \<le> length xs \<and> common_run skip xs ys \<le> length ys"
  by (induction skip xs ys rule: common_run.induct) auto

text \<open>A block lies inside both texts: what the recursion to its left and right needs.\<close>

definition block_ok :: "string \<Rightarrow> string \<Rightarrow> nat \<times> nat \<times> nat \<Rightarrow> bool" where
  "block_ok a b t = (case t of (i, j, k) \<Rightarrow> i + k \<le> length a \<and> j + k \<le> length b)"

lemma better_ok: 
  assumes "block_ok a b best"
  shows "block_ok a b (better skip a b best p)"
proof (cases p)
  case (Pair i j)
  let ?k = "common_run skip (drop i a) (drop j b)"
  have "?k \<le> length a - i" "?k \<le> length b - j"
    using common_run_le [of skip "drop i a" "drop j b"] by auto
  then have "0 < ?k \<Longrightarrow> i + ?k \<le> length a \<and> j + ?k \<le> length b"
    by arith
  then show ?thesis
    using assms unfolding better_def block_ok_def Pair
    by (auto simp: Let_def)
qed

lemma foldl_better_ok: "block_ok a b best \<Longrightarrow> block_ok a b (foldl (better skip a b) best ps)"
  by (induction ps arbitrary: best) (simp_all add: better_ok)

lemma find_longest_match_ok: "block_ok a b (find_longest_match skip a b)"
proof -
  obtain i j k where f: "foldl (better skip a b) (0, 0, 0) (List.product [0..<length a] [0..<length b]) = (i, j, k)"
    by (metis prod_cases3)
  have "block_ok a b (0, 0, 0)" by (simp add: block_ok_def)
  then have ok: "i + k \<le> length a" "j + k \<le> length b"
    using foldl_better_ok [of a b "(0, 0, 0)" skip "List.product [0..<length a] [0..<length b]"] f
    by (auto simp: block_ok_def)
  let ?bwd = "common_run (\<lambda>_. False) (rev (take i a)) (rev (take j b))"
  let ?fwd = "common_run (\<lambda>_. False) (drop (i + k) a) (drop (j + k) b)"
  have "?bwd \<le> i" "?bwd \<le> j"
    using common_run_le [of "\<lambda>_. False" "rev (take i a)" "rev (take j b)"] by auto
  moreover have "?fwd \<le> length a - (i + k)" "?fwd \<le> length b - (j + k)"
    using common_run_le [of "\<lambda>_. False" "drop (i + k) a" "drop (j + k) b"] by auto
  ultimately show ?thesis
    using ok unfolding find_longest_match_def f block_ok_def by (simp add: Let_def) arith
qed

lemma find_longest_match_bounds:
  "find_longest_match skip a b = (i, j, k) \<Longrightarrow> i + k \<le> length a \<and> j + k \<le> length b"
  using find_longest_match_ok [of a b skip] by (simp add: block_ok_def)

text \<open>The total size of the matching blocks (\<open>get_matching_blocks\<close>).\<close>

function matching_size :: "(char \<Rightarrow> bool) \<Rightarrow> string \<Rightarrow> string \<Rightarrow> nat" where
  "matching_size skip a b =
     (case find_longest_match skip a b of
        (i, j, k) \<Rightarrow>
          if k = 0 then 0
          else k + (if 0 < i \<and> 0 < j then matching_size skip (take i a) (take j b) else 0)
                 + (if i + k < length a \<and> j + k < length b
                    then matching_size skip (drop (i + k) a) (drop (j + k) b) else 0))"
  by pat_completeness auto
termination
  by (relation "measure (\<lambda>(skip, a, b). length a)")
     (auto dest: find_longest_match_bounds [OF sym])

declare matching_size.simps [simp del]

text \<open>\<open>SequenceMatcher(None, a, b).ratio()\<close>\<close>

definition ratio :: "string \<Rightarrow> string \<Rightarrow> real" where
  "ratio a b =
     (let total = length a + length b
      in if total = 0 then 1 else 2 * real (matching_size (popular b) a b) / real total)"

lemma matching_size_le: "matching_size skip a b \<le> length a \<and> matching_size skip a b \<le> length b"
proof (induction skip a b rule: matching_size.induct)
  case (1 skip a b)
  obtain i j k where f: "find_longest_match skip a b = (i, j, k)" by (metis prod_cases3)
  note bd = find_longest_match_bounds [OF f]
  show ?case
  proof (cases "k = 0")
    case True
    then show ?thesis using f by (simp add: matching_size.simps [of skip a b])
  next
    case False
    define ml where "ml = (if 0 < i \<and> 0 < j then matching_size skip (take i a) (take j b) else 0)"
    define mr where "mr = (if i + k < length a \<and> j + k < length b
                           then matching_size skip (drop (i + k) a) (drop (j + k) b) else 0)"
    have l: "ml \<le> i \<and> ml \<le> j"
      using 1(1) [OF f [symmetric] refl False] bd by (auto simp: ml_def)
    have r: "mr \<le> length a - (i + k) \<and> mr \<le> length b - (j + k)"
      using 1(2) [OF f [symmetric] refl False] by (auto simp: mr_def)
    have "matching_size skip a b = k + ml + mr"
      using False f by (simp add: matching_size.simps [of skip a b] ml_def mr_def)
    then show ?thesis
      using l r bd by arith
  qed
qed

lemma ratio_bounds: "0 \<le> ratio a b \<and> ratio a b \<le> 1"
proof -
  let ?m = "matching_size (popular b) a b"
  have "2 * ?m \<le> length a + length b"
    using matching_size_le [of "popular b" a b] by arith
  then have "2 * real ?m \<le> real (length a + length b)"
    by (metis of_nat_le_iff of_nat_mult of_nat_numeral)
  then show ?thesis
    by (simp add: ratio_def Let_def divide_le_eq)
qed

section \<open>calculate_track_similarity\<close>

subsection \<open>Multi-part consolidation\<close>

definition prefix_ci :: "string \<Rightarrow> string \<Rightarrow> bool" where
  \<comment> \<open>A lower-case literal matched at the head of \<open>s\<close> under \<open>re.IGNORECASE\<close>.\<close>
  "prefix_ci lit s = (lower (take (length lit) s) = lit)"

definition part_word :: "string \<Rightarrow> string option" where
  \<comment> \<open>\<open>^(?:Part|Movement)\<close> under \<open>re.IGNORECASE\<close>: the text behind the word.\<close>
  "part_word s =
     (if prefix_ci ''part'' s then Some (drop 4 s)
      else if prefix_ci ''movement'' s then Some (drop 8 s)
      else None)"

definition starts_part :: "string \<Rightarrow> bool" where
  \<comment> \<open>\<open>re.match(r'^(?:Part|Movement)', s, re.IGNORECASE)\<close>\<close>
  "starts_part s = (part_word s \<noteq> None)"

definition is_roman :: "char \<Rightarrow> bool" where
  \<comment> \<open>\<open>[IVX]\<close> under \<open>re.IGNORECASE\<close>\<close>
  "is_roman c = (lower_char c \<in> set ''ivx'')"

definition at_end :: "string \<Rightarrow> bool" where
  \<comment> \<open>\<open>$\<close>: at the end of the text, or before a newline that ends it.\<close>
  "at_end s = (s = [] \<or> s = [CHR 0x0A])"

definition is_part :: "string \<Rightarrow> bool" where
  \<comment> \<open>\<open>re.match(r'^(?:Part|Movement)\s*(\d+|[IVX]+)$', s, re.IGNORECASE)\<close>\<close>
  "is_part s =
     (case part_word s of
        None \<Rightarrow> False
      | Some r \<Rightarrow>
          (let n = dropWhile is_space r
           in (takeWhile is_digit n \<noteq> [] \<and> at_end (dropWhile is_digit n))
              \<or> (takeWhile is_roman n \<noteq> [] \<and> at_end (dropWhile is_roman n))))"

text \<open>
  \<open>multi_part_groups\<close> is a dict from a main title to the list of its parts; the
  model is an association list in the order the keys were inserted.
\<close>

type_synonym groups = "(string \<times> string list) list"

fun add_part :: "string \<Rightarrow> string \<Rightarrow> groups \<Rightarrow> groups" where
  \<comment> \<open>\<open>if main_title not in g: g[main_title] = []\<close>, then \<open>g[main_title].append(track)\<close>\<close>
  "add_part main_title track [] = [(main_title, [track])]"
| "add_part main_title track ((k, parts) # g) =
     (if k = main_title then (k, parts @ [track]) # g
      else (k, parts) # add_part main_title track g)"

definition group_step :: "string list \<Rightarrow> groups \<Rightarrow> nat \<Rightarrow> groups" where
  \<comment> \<open>One round of the loop over \<open>enumerate(metadata_tracks)\<close>.\<close>
  "group_step tracks g i =
     (let track = tracks ! i
      in if is_part track
         then (if 0 < i \<and> \<not> starts_part (tracks ! (i - 1))
               then add_part (tracks ! (i - 1)) track g
               else g)
         else g)"

definition multi_part_groups :: "string list \<Rightarrow> groups" where
  "multi_part_groups tracks = foldl (group_step tracks) [] [0..<length tracks]"

definition standalone :: "groups \<Rightarrow> string list \<Rightarrow> string list" where
  \<comment> \<open>The tracks that are neither a key of the groups nor a part of one.\<close>
  "standalone g tracks =
     filter (\<lambda>track. track \<notin> fst ` set g \<and> \<not> (\<exists>parts \<in> snd ` set g. track \<in> set parts)) tracks"

fun str_nat :: "nat \<Rightarrow> string" where
  \<comment> \<open>\<open>str(n)\<close> of a natural number.\<close>
  "str_nat n =
     (if n < 10 then [char_of (48 + n)]
      else str_nat (n div 10) @ [char_of (48 + n mod 10)])"

definition synthetic :: "string \<times> string list \<Rightarrow> string" where
  \<comment> \<open>\<open>f"{main_title} (with {len(parts)} parts)"\<close>\<close>
  "synthetic e = fst e @ '' (with '' @ str_nat (length (snd e)) @ '' parts)''"

definition processed_tracks :: "string list \<Rightarrow> string list" where
  \<comment> \<open>\<open>processed_metadata_tracks\<close>\<close>
  "processed_tracks tracks =
     (let g = multi_part_groups tracks;
          p = standalone g tracks @ map synthetic g
      in if p = [] then tracks else p)"

subsection \<open>The score of one pair\<close>

definition with_parts :: "string \<Rightarrow> nat option" where
  \<comment> \<open>\<open>\s+with \d+ parts\<close>\<close>
  "with_parts s =
     (let ws = takeWhile is_space s; r = dropWhile is_space s
      in if ws \<noteq> [] \<and> prefix ''with '' r
         then (let ds = takeWhile is_digit (drop 5 r); r2 = dropWhile is_digit (drop 5 r)
               in if ds \<noteq> [] \<and> prefix '' parts'' r2
                  then Some (length ws + 5 + length ds + 6)
                  else None)
         else None)"

definition part_similarity :: "string \<Rightarrow> string \<Rightarrow> real \<times> bool" where
  \<comment> \<open>The pair's similarity in the multi-part branch, and whether the pair sets
      \<open>is_part_match\<close>.\<close>
  "part_similarity main_title oclc_track =
     (if contains main_title oclc_track \<or> contains oclc_track main_title
      then (95 / 100, True)
      else (ratio main_title oclc_track, False))"

definition common_count :: "string \<Rightarrow> string \<Rightarrow> nat" where
  \<comment> \<open>\<open>len(common_words)\<close>, the two texts split into their sets of words.\<close>
  "common_count meta_track oclc_track =
     card (set (split_ws meta_track) \<inter> set (split_ws oclc_track))"

definition shorter_length :: "string \<Rightarrow> string \<Rightarrow> nat" where
  \<comment> \<open>\<open>min(len(meta_words), len(oclc_words))\<close>\<close>
  "shorter_length meta_track oclc_track =
     min (card (set (split_ws meta_track))) (card (set (split_ws oclc_track)))"

definition word_rule :: "string \<Rightarrow> string \<Rightarrow> bool" where
  \<comment> \<open>\<open>shorter_length > 0 and len(common_words) >= max(1, int(shorter_length * 0.6))\<close>\<close>
  "word_rule meta_track oclc_track =
     (0 < shorter_length meta_track oclc_track
      \<and> max 1 (nat \<lfloor>real (shorter_length meta_track oclc_track) * (6 / 10)\<rfloor>)
          \<le> common_count meta_track oclc_track)"

definition word_similarity :: "string \<Rightarrow> string \<Rightarrow> real \<times> bool" where
  \<comment> \<open>The pair's similarity in the other branch, and whether the pair sets
      \<open>is_substring_match\<close>.\<close>
  "word_similarity meta_track oclc_track =
     (if word_rule meta_track oclc_track
      then (max (8 / 10)
              (real (common_count meta_track oclc_track)
               / real (shorter_length meta_track oclc_track)), True)
      else if contains meta_track oclc_track \<or> contains oclc_track meta_track
      then (max (85 / 100) (ratio meta_track oclc_track), True)
      else (ratio meta_track oclc_track, False))"

subsection \<open>The best match of one entry\<close>

record match_state =
  best_match :: real
  best_match_index :: int
  is_substring_match :: bool
  is_part_match :: bool

definition init_state :: match_state where
  "init_state =
     \<lparr>best_match = 0, best_match_index = - 1, is_substring_match = False, is_part_match = False\<rparr>"

definition keep_better :: "nat \<Rightarrow> real \<Rightarrow> match_state \<Rightarrow> match_state" where
  \<comment> \<open>\<open>if similarity > best_match: best_match = similarity; best_match_index = j\<close>\<close>
  "keep_better j similarity st =
     (if best_match st < similarity
      then st\<lparr>best_match := similarity, best_match_index := int j\<rparr>
      else st)"

definition part_step :: "string \<Rightarrow> match_state \<Rightarrow> nat \<times> string \<Rightarrow> match_state" where
  "part_step main_title st p =
     (case p of (j, oclc_track) \<Rightarrow>
        (case part_similarity main_title oclc_track of (similarity, hit) \<Rightarrow>
           keep_better j similarity (if hit then st\<lparr>is_part_match := True\<rparr> else st)))"

definition word_step :: "string \<Rightarrow> match_state \<Rightarrow> nat \<times> string \<Rightarrow> match_state" where
  "word_step meta_track st p =
     (case p of (j, oclc_track) \<Rightarrow>
        (case word_similarity meta_track oclc_track of (similarity, hit) \<Rightarrow>
           keep_better j similarity (if hit then st\<lparr>is_substring_match := True\<rparr> else st)))"

definition match_entry :: "string \<Rightarrow> string list \<Rightarrow> match_state" where
  \<comment> \<open>The body of the loop over \<open>norm_metadata_tracks\<close>, up to the report.\<close>
  "match_entry meta_track norm_oclc_tracks =
     (if contains ''with'' meta_track \<and> contains ''parts'' meta_track
      then foldl (part_step (re_sub with_parts [] meta_track)) init_state
             (enumerate 0 norm_oclc_tracks)
      else foldl (word_step meta_track) init_state (enumerate 0 norm_oclc_tracks))"

subsection \<open>The report and the percentage\<close>

text \<open>
  A line of \<open>matched_tracks\<close>, without its formatting: the source title, then for
  a match the mark behind the check sign, the counterpart and the score.
\<close>

datatype mark = Plain | MultiPart | Substring

datatype match_info =
    Matched string mark string real
  | Unmatched string string real
  | NoMatch string

definition item :: "'a list \<Rightarrow> int \<Rightarrow> 'a" where
  \<comment> \<open>\<open>xs[i]\<close> for \<open>- len(xs) \<le> i < len(xs)\<close>; a negative index counts from the end.\<close>
  "item xs i = (if i < 0 then xs ! nat (int (length xs) + i) else xs ! nat i)"

definition report :: "string \<Rightarrow> string list \<Rightarrow> match_state \<Rightarrow> match_info" where
  "report orig_track oclc_tracks st =
     (if 8 / 10 \<le> best_match st
      then Matched orig_track
             (if is_part_match st then MultiPart
              else if is_substring_match st then Substring else Plain)
             (item oclc_tracks (best_match_index st)) (best_match st)
      else if 0 \<le> best_match_index st
      then Unmatched orig_track (item oclc_tracks (best_match_index st)) (best_match st)
      else NoMatch orig_track)"

definition match_trace :: "string list \<Rightarrow> string list \<Rightarrow> match_info list" where
  \<comment> \<open>\<open>matched_tracks\<close>, for two non-empty lists.\<close>
  "match_trace metadata_tracks oclc_tracks =
     map (\<lambda>orig_track.
            report orig_track oclc_tracks
              (match_entry (normalize_track orig_track) (map normalize_track oclc_tracks)))
         (processed_tracks metadata_tracks)"

definition add_match :: "string list \<Rightarrow> real \<Rightarrow> string \<Rightarrow> real" where
  \<comment> \<open>\<open>if best_match >= 0.8: matches += best_match\<close>\<close>
  "add_match norm_oclc_tracks matches meta_track =
     (let st = match_entry meta_track norm_oclc_tracks
      in if 8 / 10 \<le> best_match st then matches + best_match st else matches)"

definition calculate_track_similarity :: "string list \<Rightarrow> string list \<Rightarrow> real" where
  "calculate_track_similarity metadata_tracks oclc_tracks =
     (if metadata_tracks = [] \<or> oclc_tracks = [] then 0
      else
        (let norm_metadata_tracks = map normalize_track (processed_tracks metadata_tracks);
             norm_oclc_tracks = map normalize_track oclc_tracks;
             matches = foldl (add_match norm_oclc_tracks) 0 norm_metadata_tracks
         in if length norm_metadata_tracks = 0 then 0
            else
              (let similarity = matches / real (length norm_metadata_tracks)
               in if multi_part_groups metadata_tracks \<noteq> [] \<and> similarity * 100 < 80
                  then min 80 (similarity * 100 + 10)
                  else similarity * 100)))"

text \<open>The percentage before the multi-part bonus: \<open>similarity * 100\<close>.\<close>

definition raw_percent :: "string list \<Rightarrow> string list \<Rightarrow> real" where
  "raw_percent metadata_tracks oclc_tracks =
     foldl (add_match (map normalize_track oclc_tracks)) 0
       (map normalize_track (processed_tracks metadata_tracks))
     / real (length (map normalize_track (processed_tracks metadata_tracks))) * 100"

text \<open>The best-match similarity of every consolidated entry, in order.\<close>

definition best_scores :: "string list \<Rightarrow> string list \<Rightarrow> real list" where
  "best_scores metadata_tracks oclc_tracks =
     map (\<lambda>meta_track. best_match (match_entry meta_track (map normalize_track oclc_tracks)))
         (map normalize_track (processed_tracks metadata_tracks))"

section \<open>The percentage\<close>

lemma processed_tracks_nonempty: "tracks \<noteq> [] \<Longrightarrow> processed_tracks tracks \<noteq> []"
  by (simp add: processed_tracks_def Let_def)

lemma calculate_unfold:
  assumes "A \<noteq> []" "B \<noteq> []"
  shows "calculate_track_similarity A B =
           (if multi_part_groups A \<noteq> [] \<and> raw_percent A B < 80
            then min 80 (raw_percent A B + 10) else raw_percent A B)"
proof -
  have p: "map normalize_track (processed_tracks A) \<noteq> []"
    using processed_tracks_nonempty [OF assms(1)] by simp
  show ?thesis
    by (simp only: calculate_track_similarity_def raw_percent_def Let_def assms p
          simp_thms if_False length_0_conv)
qed

lemma foldl_add_match:
  "foldl (add_match N) acc ts =
     acc + sum_list (filter (\<lambda>s. 8 / 10 \<le> s) (map (\<lambda>t. best_match (match_entry t N)) ts))"
  by (induction ts arbitrary: acc) (simp_all add: add_match_def Let_def)

text \<open>
  C8. If either list is empty, \<open>calculate_track_similarity\<close> returns 0.0: the score
  of an empty metadata list against any catalog list, and of any metadata list
  against an empty catalog list, is 0.
\<close>

theorem empty_list_scores_zero:
  "calculate_track_similarity [] B = 0 \<and> calculate_track_similarity A [] = 0"
  by (simp add: calculate_track_similarity_def)

text \<open>
  C7. For two non-empty lists: when a multi-part group exists and the raw
  percentage is below 80, the result is \<open>min(80, raw + 10)\<close>, which is at most 80
  and not below the raw percentage; when no group exists or the raw percentage
  is at least 80, the result is the raw percentage.
\<close>

theorem multi_part_bonus:
  assumes "A \<noteq> []" "B \<noteq> []"
  shows "(multi_part_groups A \<noteq> [] \<and> raw_percent A B < 80 \<longrightarrow>
            calculate_track_similarity A B = min 80 (raw_percent A B + 10)
            \<and> calculate_track_similarity A B \<le> 80
            \<and> raw_percent A B \<le> calculate_track_similarity A B)
         \<and> (multi_part_groups A = [] \<or> 80 \<le> raw_percent A B \<longrightarrow>
            calculate_track_similarity A B = raw_percent A B)"
  using calculate_unfold [OF assms] by auto

theorem multi_part_bonus_witness:
  "multi_part_groups [''Intro'', ''Part 1'', ''Part 2''] \<noteq> []
   \<and> raw_percent [''Intro'', ''Part 1'', ''Part 2''] [''Intro''] = 50
   \<and> calculate_track_similarity [''Intro'', ''Part 1'', ''Part 2''] [''Intro''] = 60"
proof -
  have g: "multi_part_groups [''Intro'', ''Part 1'', ''Part 2''] \<noteq> []" by code_simp
  have r: "raw_percent [''Intro'', ''Part 1'', ''Part 2''] [''Intro''] = 50" by code_simp
  have "calculate_track_similarity [''Intro'', ''Part 1'', ''Part 2''] [''Intro'']
          = min 80 (raw_percent [''Intro'', ''Part 1'', ''Part 2''] [''Intro''] + 10)"
    using multi_part_bonus [of "[''Intro'', ''Part 1'', ''Part 2'']" "[''Intro'']"] g r by simp
  then show ?thesis using g r by simp
qed

text \<open>
  C1, as the code has it. The percentage before the bonus is the sum of the
  best-match similarities of the consolidated entries whose best score is at
  least 0.8, divided by the number of all consolidated entries, times 100; an
  entry whose best score is below 0.8 adds nothing to the sum. For two non-empty
  lists without a multi-part group this is the returned score.
\<close>

theorem aggregate_score:
  "raw_percent A B =
     sum_list (filter (\<lambda>s. 8 / 10 \<le> s) (best_scores A B)) / real (length (best_scores A B)) * 100
   \<and> (A \<noteq> [] \<and> B \<noteq> [] \<and> multi_part_groups A = [] \<longrightarrow>
        calculate_track_similarity A B =
          sum_list (filter (\<lambda>s. 8 / 10 \<le> s) (best_scores A B))
          / real (length (best_scores A B)) * 100)"
proof -
  have r: "raw_percent A B =
     sum_list (filter (\<lambda>s. 8 / 10 \<le> s) (best_scores A B)) / real (length (best_scores A B)) * 100"
    by (simp add: raw_percent_def best_scores_def foldl_add_match)
  show ?thesis using r calculate_unfold [of A B] by auto
qed

theorem aggregate_score_witness:
  "calculate_track_similarity [''Love Song'', ''abcd''] [''A Love Song (Remastered)'', ''abxy''] = 50
   \<and> best_scores [''Love Song'', ''abcd''] [''A Love Song (Remastered)'', ''abxy''] = [1, 1 / 2]"
proof -
  have g: "multi_part_groups [''Love Song'', ''abcd''] = []" by code_simp
  have b: "best_scores [''Love Song'', ''abcd''] [''A Love Song (Remastered)'', ''abxy''] = [1, 1 / 2]"
    by code_simp
  show ?thesis
    using aggregate_score [of "[''Love Song'', ''abcd'']" "[''A Love Song (Remastered)'', ''abxy'']"] g b
    by simp
qed

text \<open>
  C1 as stated fails: the only consolidated entry of \<open>[abcd]\<close> has the best score
  0.5 against \<open>[abxy]\<close>, so the sum of all best scores over the count, times 100,
  is 50, and the code returns 0.
\<close>

theorem aggregate_score_counterexample:
  "calculate_track_similarity [''abcd''] [''abxy''] = 0
   \<and> sum_list (best_scores [''abcd''] [''abxy''])
       / real (length (best_scores [''abcd''] [''abxy''])) * 100 = 50"
  by code_simp

section \<open>The consolidation and the rule of the synthetic entry\<close>

text \<open>
  C2 at the list \<open>[Intro, Part 1, Part 2]\<close>. The claim asks for the one synthetic
  entry \<open>Intro (with 2 parts)\<close>. The loop looks only at the entry just before a
  part, and \<open>Part 1\<close> before \<open>Part 2\<close> is itself a part: \<open>Part 2\<close> joins no group,
  stays a standalone entry, and the synthetic entry counts one part.
\<close>

theorem consolidation_of_two_parts:
  "multi_part_groups [''Intro'', ''Part 1'', ''Part 2''] = [(''Intro'', [''Part 1''])]
   \<and> processed_tracks [''Intro'', ''Part 1'', ''Part 2''] = [''Part 2'', ''Intro (with 1 parts)'']"
  by code_simp

text \<open>
  C3 at the same list against the catalog \<open>[Intro]\<close>. The claim asks for the
  multi-part rule: similarity 0.95 and the mark multi-part. The normalizer strips
  \<open>(with 1 parts)\<close> from the synthetic entry, so the test for \<open>with\<close> and \<open>parts\<close>
  fails on it, the entry goes through the word-overlap rule, and the report gives
  the score 1 with the mark substring.
\<close>

theorem synthetic_entry_match:
  "normalize_track ''Intro (with 1 parts)'' = ''intro''
   \<and> match_trace [''Intro'', ''Part 1'', ''Part 2''] [''Intro'']
       = [Unmatched ''Part 2'' ''Intro'' (2 / 11),
          Matched ''Intro (with 1 parts)'' Substring ''Intro'' 1]"
  by code_simp

section \<open>The word-overlap rule\<close>

lemma common_le_shorter: "common_count m o' \<le> shorter_length m o'"
  by (simp add: common_count_def shorter_length_def card_mono)

lemma trunc_le_iff: "nat \<lfloor>real n * (6 / 10)\<rfloor> \<le> c \<longleftrightarrow> 3 * n \<le> 5 * c + 4"
proof -
  have "nat \<lfloor>real n * (6 / 10)\<rfloor> \<le> c \<longleftrightarrow> \<lfloor>real n * (6 / 10)\<rfloor> \<le> int c"
    by linarith
  also have "\<dots> \<longleftrightarrow> real n * (6 / 10) < real c + 1"
    by (simp add: floor_le_iff)
  also have "\<dots> \<longleftrightarrow> 6 * real n < 10 * real c + 10"
    by auto
  also have "\<dots> \<longleftrightarrow> real (6 * n) < real (10 * c + 10)"
    by simp
  also have "\<dots> \<longleftrightarrow> 6 * n < 10 * c + 10"
    by (simp only: of_nat_less_iff)
  also have "\<dots> \<longleftrightarrow> 3 * n \<le> 5 * c + 4"
    by arith
  finally show ?thesis .
qed

text \<open>
  C4, as the code has it. The word-overlap rule fires exactly when the two word
  sets share at least one word and at least \<open>\<lfloor>0.6 n\<rfloor>\<close> words, \<open>n\<close> the size of the
  smaller set (with \<open>c\<close> common words: \<open>3 n \<le> 5 c + 4\<close>); the pair's score is
  then \<open>max(0.8, c / n)\<close>. It fires whenever the smaller set is non-empty and at
  least 60% of it is shared.
\<close>

theorem word_overlap_rule:
  "(word_rule m o' \<longleftrightarrow>
      0 < common_count m o' \<and> 3 * shorter_length m o' \<le> 5 * common_count m o' + 4)
   \<and> (word_rule m o' \<longrightarrow>
        word_similarity m o'
          = (max (8 / 10) (real (common_count m o') / real (shorter_length m o')), True))
   \<and> (0 < shorter_length m o'
        \<and> 6 / 10 \<le> real (common_count m o') / real (shorter_length m o') \<longrightarrow> word_rule m o')"
proof -
  let ?c = "common_count m o'" and ?n = "shorter_length m o'"
  have iff: "word_rule m o' \<longleftrightarrow> 0 < ?c \<and> 3 * ?n \<le> 5 * ?c + 4"
    unfolding word_rule_def max_def trunc_le_iff
    using common_le_shorter [of m o'] by (simp split: if_splits) arith
  have sc: "word_rule m o' \<longrightarrow> word_similarity m o' = (max (8 / 10) (real ?c / real ?n), True)"
    by (simp add: word_similarity_def)
  have "word_rule m o'" if n: "0 < ?n" and f: "6 / 10 \<le> real ?c / real ?n"
  proof -
    have "6 / 10 * real ?n \<le> real ?c"
      using n f by (simp add: pos_le_divide_eq)
    then have "real (6 * ?n) \<le> real (10 * ?c)" by simp
    then have "6 * ?n \<le> 10 * ?c" by (simp only: of_nat_le_iff)
    then show ?thesis using n iff by arith
  qed
  then show ?thesis using iff sc by blast
qed

theorem word_overlap_rule_witness:
  "word_rule ''night and day'' ''day and night long''
   \<and> word_similarity ''night and day'' ''day and night long'' = (1, True)"
proof -
  have c: "common_count ''night and day'' ''day and night long'' = 3" by code_simp
  have n: "shorter_length ''night and day'' ''day and night long'' = 3" by code_simp
  show ?thesis
    using word_overlap_rule [of "''night and day''" "''day and night long''"] c n by simp
qed

text \<open>
  C4 as stated fails: \<open>a b\<close> and \<open>a c\<close> share one word of two, 50% of the smaller
  set, and the rule fires with the score 0.8.
\<close>

theorem word_overlap_rule_counterexample:
  "word_rule ''a b'' ''a c''
   \<and> real (common_count ''a b'' ''a c'') / real (shorter_length ''a b'' ''a c'') = 1 / 2
   \<and> word_similarity ''a b'' ''a c'' = (8 / 10, True)"
  by code_simp

section \<open>An entry with an empty normal form\<close>

lemma contains_Nil: "contains [] s"
  unfolding contains_def by (rule bexI [of _ s]) simp_all

lemma word_similarity_empty: "word_similarity [] o' = (max (85 / 100) (ratio [] o'), True)"
  by (simp add: word_similarity_def word_rule_def shorter_length_def split_ws_def contains_Nil)

text \<open>The state of an entry that has met a catalog entry under the substring rule.\<close>

definition found :: "match_state \<Rightarrow> bool" where
  "found st = (85 / 100 \<le> best_match st \<and> 0 \<le> best_match_index st
               \<and> is_substring_match st \<and> \<not> is_part_match st)"

lemma word_step_empty_found:
  assumes "\<not> is_part_match st" "best_match st = 0 \<or> found st"
  shows "found (word_step [] st p)"
proof (cases p)
  case (Pair j o')
  show ?thesis
    using assms unfolding Pair word_step_def found_def
    by (auto simp: word_similarity_empty keep_better_def)
qed

lemma word_step_found: "found st \<Longrightarrow> found (word_step [] st p)"
  by (rule word_step_empty_found) (simp_all add: found_def)

lemma foldl_word_step_found: "found st \<Longrightarrow> found (foldl (word_step []) st ps)"
  by (induction ps arbitrary: st) (simp_all add: word_step_found)

lemma match_entry_empty:
  assumes "N \<noteq> []"
  shows "found (match_entry [] N)"
proof -
  obtain o' os where N: "N = o' # os" using assms by (cases N) auto
  have "found (word_step [] init_state (0, o'))"
    by (rule word_step_empty_found) (simp_all add: init_state_def)
  then show ?thesis
    by (simp add: match_entry_def contains_def N enumerate_eq_zip upt_conv_Cons foldl_word_step_found del: upt_Suc)
qed

text \<open>
  C10. A metadata entry whose normal form is empty takes the substring rule
  against every catalog entry: against a non-empty catalog list its best score
  is at least 0.85, the report marks it as a substring match, and its score is
  added to the matches.
\<close>

theorem empty_normal_form_matches:
  assumes "normalize_track t = []" "B \<noteq> []"
  shows "85 / 100 \<le> best_match (match_entry (normalize_track t) (map normalize_track B))
         \<and> (\<exists>c s. report t B (match_entry (normalize_track t) (map normalize_track B))
                    = Matched t Substring c s)
         \<and> add_match (map normalize_track B) m (normalize_track t)
             = m + best_match (match_entry (normalize_track t) (map normalize_track B))"
proof -
  have f: "found (match_entry [] (map normalize_track B))"
    using assms(2) by (simp add: match_entry_empty)
  then show ?thesis
    unfolding assms(1) by (auto simp: found_def report_def add_match_def Let_def)
qed

theorem empty_normal_form_matches_witness:
  "normalize_track ''Edit'' = []
   \<and> 85 / 100 \<le> best_match (match_entry (normalize_track ''Edit'') (map normalize_track [''Blue Moon'']))"
proof -
  have h: "normalize_track ''Edit'' = []" by code_simp
  have b: "[''Blue Moon''] \<noteq> []" by simp
  show ?thesis using empty_normal_form_matches [OF h b] h by simp
qed

end
